theory Spec2Isabelle
  imports Complex_Main
begin

section \<open>Python values, errors and the outside world\<close>

text \<open>
  Both modules work on what \<^verbatim>\<open>requests.get(...).json()\<close> returns: a parsed JSON document.
  Python's parser also reads the literals \<^verbatim>\<open>NaN\<close>, \<^verbatim>\<open>Infinity\<close> and \<^verbatim>\<open>-Infinity\<close>, so a
  number is a finite value (an int or a float, taken by its numeric value: the code only
  compares and stores numbers, which is exact), an infinity or NaN. An object is an
  association list in which the first binding of a key is the one the dict holds.
  A \<open>char\<close> stands for one character of a Python \<^verbatim>\<open>str\<close>. The same type serves for the
  values of attributes and parameters: \<open>JNum NaN\<close> is \<^verbatim>\<open>float("NaN")\<close>.
\<close>

datatype pynum = Num real | PosInf | NegInf | NaN

datatype json =
    JNull
  | JBool bool
  | JNum pynum
  | JStr string
  | JArr "json list"
  | JObj "(string \<times> json) list"

datatype pyerror =
    KeyError
  | IndexError
  | TypeError
  | ValueError
  | ZeroDivisionError
  | AttributeError
  | RequestException
  | PyException string

definition py_bind :: "pyerror + 'a \<Rightarrow> ('a \<Rightarrow> pyerror + 'b) \<Rightarrow> pyerror + 'b" where
  "py_bind m f = (case m of Inl e \<Rightarrow> Inl e | Inr x \<Rightarrow> f x)"

text \<open>\<^verbatim>\<open>bool(v)\<close>, as \<^verbatim>\<open>not v\<close> uses it.\<close>

fun truthy :: "json \<Rightarrow> bool" where
  "truthy JNull = False"
| "truthy (JBool b) = b"
| "truthy (JNum n) = (n \<noteq> Num 0)"
| "truthy (JStr s) = (s \<noteq> [])"
| "truthy (JArr xs) = (xs \<noteq> [])"
| "truthy (JObj kvs) = (kvs \<noteq> [])"

text \<open>\<^verbatim>\<open>len(v)\<close>: defined on dicts, lists and strings only.\<close>

fun py_len :: "json \<Rightarrow> pyerror + nat" where
  "py_len (JObj kvs) = Inr (length (remdups (map fst kvs)))"
| "py_len (JArr xs) = Inr (length xs)"
| "py_len (JStr s) = Inr (length s)"
| "py_len _ = Inl TypeError"

text \<open>\<^verbatim>\<open>v[k]\<close> for a string \<open>k\<close>: a dict looks the key up, everything else refuses a
  string subscript.\<close>

fun getitem :: "json \<Rightarrow> string \<Rightarrow> pyerror + json" where
  "getitem (JObj kvs) k = (case map_of kvs k of None \<Rightarrow> Inl KeyError | Some v \<Rightarrow> Inr v)"
| "getitem _ k = Inl TypeError"

text \<open>\<^verbatim>\<open>v[0]\<close>. The keys of a parsed JSON object are strings, so \<open>0\<close> is never one.\<close>

fun getitem0 :: "json \<Rightarrow> pyerror + json" where
  "getitem0 (JArr xs) = (case xs of [] \<Rightarrow> Inl IndexError | x # _ \<Rightarrow> Inr x)"
| "getitem0 (JStr s) = (case s of [] \<Rightarrow> Inl IndexError | c # _ \<Rightarrow> Inr (JStr [c]))"
| "getitem0 (JObj kvs) = Inl KeyError"
| "getitem0 _ = Inl TypeError"

text \<open>The elements that iterating over \<open>v\<close> yields (\<^verbatim>\<open>for x in v\<close>, \<^verbatim>\<open>tuple(v)\<close>).\<close>

fun py_iter :: "json \<Rightarrow> pyerror + json list" where
  "py_iter (JArr xs) = Inr xs"
| "py_iter (JStr s) = Inr (map (\<lambda>c. JStr [c]) s)"
| "py_iter (JObj kvs) = Inr (map JStr (remdups (map fst kvs)))"
| "py_iter _ = Inl TypeError"

text \<open>The number a value is in an order comparison with an int: floats, ints and bools
  compare, anything else raises TypeError.\<close>

fun num_of :: "json \<Rightarrow> pynum option" where
  "num_of (JNum n) = Some n"
| "num_of (JBool b) = Some (Num (of_bool b))"
| "num_of _ = None"

text \<open>\<^verbatim>\<open>n < c\<close> and \<^verbatim>\<open>n > c\<close> for an int \<open>c\<close>: every comparison with NaN is False.\<close>

fun num_lt :: "pynum \<Rightarrow> real \<Rightarrow> bool" where
  "num_lt (Num x) c = (x < c)"
| "num_lt NegInf c = True"
| "num_lt PosInf c = False"
| "num_lt NaN c = False"

fun num_gt :: "pynum \<Rightarrow> real \<Rightarrow> bool" where
  "num_gt (Num x) c = (x > c)"
| "num_gt PosInf c = True"
| "num_gt NegInf c = False"
| "num_gt NaN c = False"

text \<open>\<^verbatim>\<open>v < lo or v > hi\<close>\<close>

definition out_of_range :: "json \<Rightarrow> real \<Rightarrow> real \<Rightarrow> pyerror + bool" where
  "out_of_range v lo hi =
     (case num_of v of
        None \<Rightarrow> Inl TypeError
      | Some n \<Rightarrow> Inr (num_lt n lo \<or> num_gt n hi))"

text \<open>\<^verbatim>\<open>sep.join(xs)\<close>\<close>

fun join :: "string \<Rightarrow> string list \<Rightarrow> string" where
  "join sep [] = []"
| "join sep [x] = x"
| "join sep (x # y # ys) = x @ sep @ join sep (y # ys)"

text \<open>
  The outside world: the HTTP requests sent so far and the lines printed so far. A
  service gives, for the number of requests sent before and the request, the parsed body
  that \<^verbatim>\<open>requests.get(url, params).json()\<close> returns, or \<open>None\<close> when the call fails
  (no connection, a timeout, a body that is not JSON) and raises an exception of
  \<^verbatim>\<open>requests\<close>.
\<close>

record http_request =
  url :: string
  params :: "(string \<times> json) list"

text \<open>\<open>Execution_stopped c d\<close> is the printed line
  \<^verbatim>\<open>Execution stopped with HTTP code {c} {d}\<close>.\<close>

datatype printed = Execution_stopped json json

record world =
  sent :: "http_request list"
  stdout :: "printed list"

type_synonym service = "nat \<Rightarrow> http_request \<Rightarrow> json option"

definition http_get_json :: "service \<Rightarrow> http_request \<Rightarrow> world \<Rightarrow> (pyerror + json) \<times> world" where
  "http_get_json svc req w =
     (case svc (length (sent w)) req of None \<Rightarrow> Inl RequestException | Some r \<Rightarrow> Inr r,
      w\<lparr>sent := sent w @ [req]\<rparr>)"

definition const_service :: "json \<Rightarrow> service" where
  "const_service r = (\<lambda>k req. Some r)"

definition world0 :: world where
  "world0 = \<lparr>sent = [], stdout = []\<rparr>"

section \<open>Address.py\<close>

text \<open>
  An instance is its attribute dictionary. Inside the class body \<^verbatim>\<open>self.__x\<close> is the
  attribute \<^verbatim>\<open>_Address__x\<close> (private name mangling); \<^verbatim>\<open>self._info\<close> is the attribute
  \<^verbatim>\<open>_info\<close>.
\<close>

type_synonym address = "string \<rightharpoonup> json"

definition getattr :: "address \<Rightarrow> string \<Rightarrow> pyerror + json" where
  "getattr self n = (case self n of None \<Rightarrow> Inl AttributeError | Some v \<Rightarrow> Inr v)"

definition init :: "json \<Rightarrow> json \<Rightarrow> json \<Rightarrow> json \<Rightarrow> json \<Rightarrow> address" where
  "init street city state country zipcode =
     [''_Address__street'' \<mapsto> street,
      ''_Address__city'' \<mapsto> city,
      ''_Address__state'' \<mapsto> state,
      ''_Address__country'' \<mapsto> country,
      ''_Address__zipcode'' \<mapsto> zipcode,
      ''_Address__latitude'' \<mapsto> JNum NaN,
      ''_Address__longitude'' \<mapsto> JNum NaN,
      ''_Address__info'' \<mapsto> JObj []]"

definition street :: "address \<Rightarrow> pyerror + json" where
  "street self = getattr self ''_Address__street''"

definition city :: "address \<Rightarrow> pyerror + json" where
  "city self = getattr self ''_Address__city''"

definition state :: "address \<Rightarrow> pyerror + json" where
  "state self = getattr self ''_Address__state''"

definition country :: "address \<Rightarrow> pyerror + json" where
  "country self = getattr self ''_Address__country''"

definition zipcode :: "address \<Rightarrow> pyerror + json" where
  "zipcode self = getattr self ''_Address__zipcode''"

definition latitude :: "address \<Rightarrow> pyerror + json" where
  "latitude self = getattr self ''_Address__latitude''"

definition longitude :: "address \<Rightarrow> pyerror + json" where
  "longitude self = getattr self ''_Address__longitude''"

definition info :: "address \<Rightarrow> pyerror + json" where
  "info self = getattr self ''_info''"

definition coordinates :: "address \<Rightarrow> pyerror + json \<times> json" where
  "coordinates self =
     py_bind (getattr self ''_Address__latitude'') (\<lambda>la.
     py_bind (getattr self ''_Address__longitude'') (\<lambda>lo. Inr (la, lo)))"

text \<open>\<^verbatim>\<open>Address.Geocode.get_geocode\<close> up to the call of \<^verbatim>\<open>requests.get\<close>: the request
  it builds from the address's properties.\<close>

definition get_geocode :: "address \<Rightarrow> pyerror + http_request" where
  "get_geocode address =
     py_bind (street address) (\<lambda>st.
     py_bind (city address) (\<lambda>ci.
     py_bind (state address) (\<lambda>sa.
     py_bind (country address) (\<lambda>co.
     py_bind (zipcode address) (\<lambda>z.
       Inr \<lparr>url = ''https://nominatim.openstreetmap.org/'' @ ''search/'',
            params = [(''street'', st), (''city'', ci), (''state'', sa), (''country'', co),
                      (''postalcode'', z), (''format'', JStr ''geocodejson''),
                      (''polygon_svg'', JNum (Num 1))]\<rparr>)))))"

text \<open>\<^verbatim>\<open>longitude, latitude = tuple(self.__info['features'][0]['geometry']['coordinates'])\<close>\<close>

definition extract_coordinates :: "json \<Rightarrow> pyerror + json \<times> json" where
  "extract_coordinates i =
     py_bind (getitem i ''features'') (\<lambda>fs.
     py_bind (getitem0 fs) (\<lambda>f.
     py_bind (getitem f ''geometry'') (\<lambda>g.
     py_bind (getitem g ''coordinates'') (\<lambda>cs.
     py_bind (py_iter cs) (\<lambda>t.
       case t of [lon, lat] \<Rightarrow> Inr (lon, lat) | _ \<Rightarrow> Inl ValueError)))))"

text \<open>Lines 149 to 158 of \<^verbatim>\<open>geocode\<close>, run on the instance whose \<^verbatim>\<open>__info\<close> is already
  the response \<open>r\<close>.\<close>

definition validate_and_store :: "json \<Rightarrow> address \<Rightarrow> (pyerror + unit) \<times> address" where
  "validate_and_store r self =
     (case extract_coordinates r of
        Inl e \<Rightarrow> (Inl e, self)
      | Inr (lon, lat) \<Rightarrow>
          (case out_of_range lat (- 90) 90 of
             Inl e \<Rightarrow> (Inl e, self)
           | Inr True \<Rightarrow>
               (Inl (PyException ''Illegal argument, latitude must be between -90 and 90''), self)
           | Inr False \<Rightarrow>
               (case out_of_range lon (- 180) 180 of
                  Inl e \<Rightarrow> (Inl e, self)
                | Inr True \<Rightarrow>
                    (Inl (PyException
                       ''Illegal argument, longitude must be between -180 and 180''), self)
                | Inr False \<Rightarrow>
                    (Inr (), self(''_Address__latitude'' \<mapsto> lat,
                                  ''_Address__longitude'' \<mapsto> lon)))))"

definition geocode :: "service \<Rightarrow> address \<Rightarrow> world \<Rightarrow> (pyerror + unit) \<times> address \<times> world" where
  "geocode svc self w =
     (case getattr self ''_Address__info'' of
        Inl e \<Rightarrow> (Inl e, self, w)
      | Inr i \<Rightarrow>
          if truthy i then (Inr (), self, w)
          else
            (case get_geocode self of
               Inl e \<Rightarrow> (Inl e, self, w)
             | Inr req \<Rightarrow>
                 (case http_get_json svc req w of
                    (Inl e, w') \<Rightarrow> (Inl e, self, w')
                  | (Inr r, w') \<Rightarrow>
                      (case validate_and_store r (self(''_Address__info'' \<mapsto> r)) of
                         (res, self') \<Rightarrow> (res, self', w')))))"

text \<open>The records a caller can hold: a constructed one, after any number of
  \<^verbatim>\<open>geocode\<close> calls (whatever each did).\<close>

inductive reaches :: "address \<Rightarrow> address \<Rightarrow> bool" where
  reaches_refl: "reaches a a"
| reaches_step: "reaches a b \<Longrightarrow> geocode svc b w = (res, c, w') \<Longrightarrow> reaches a c"

text \<open>Both coordinates are NaN, as the constructor leaves them.\<close>

definition unset :: "address \<Rightarrow> bool" where
  "unset a = (a ''_Address__latitude'' = Some (JNum NaN) \<and> a ''_Address__longitude'' = Some (JNum NaN))"

text \<open>The bounds of the spec: \<open>-90 \<le> latitude \<le> 90\<close> and \<open>-180 \<le> longitude \<le> 180\<close>,
  which no NaN and no infinity satisfies.\<close>

definition within_bounds :: "address \<Rightarrow> bool" where
  "within_bounds a =
     (case (a ''_Address__latitude'', a ''_Address__longitude'') of
        (Some la, Some lo) \<Rightarrow>
          (case (num_of la, num_of lo) of
             (Some (Num y), Some (Num x)) \<Rightarrow>
               - 90 \<le> y \<and> y \<le> 90 \<and> - 180 \<le> x \<and> x \<le> 180
           | _ \<Rightarrow> False)
      | _ \<Rightarrow> False)"

subsection \<open>The invariant of a record, and examples\<close>

text \<open>What holds of every record made by the constructor, whatever calls of
  \<^verbatim>\<open>geocode\<close> followed: no attribute \<^verbatim>\<open>_info\<close>, the five fields as given, and a
  metadata value that is non-empty unless the coordinates are the sentinel pair.\<close>

definition address_inv :: "json \<Rightarrow> json \<Rightarrow> json \<Rightarrow> json \<Rightarrow> json \<Rightarrow> address \<Rightarrow> bool" where
  "address_inv st ci sa co z a =
     (a ''_info'' = None
      \<and> a ''_Address__street'' = Some st \<and> a ''_Address__city'' = Some ci
      \<and> a ''_Address__state'' = Some sa \<and> a ''_Address__country'' = Some co
      \<and> a ''_Address__zipcode'' = Some z
      \<and> (\<exists>i. a ''_Address__info'' = Some i \<and> (truthy i \<or> unset a)))"

text \<open>A geocodejson answer with one feature, an address, and a geocoder whose first call
  fails in transport.\<close>

definition geo_response :: "pynum \<Rightarrow> pynum \<Rightarrow> json" where
  "geo_response lon lat =
     JObj [(''type'', JStr ''FeatureCollection''),
           (''features'',
              JArr [JObj [(''type'', JStr ''Feature''),
                          (''geometry'', JObj [(''type'', JStr ''Point''),
                                               (''coordinates'', JArr [JNum lon, JNum lat])])]])]"

definition address0 :: address where
  "address0 = init (JStr ''350 5th Ave'') (JStr ''New York'') (JStr ''NY'')
                (JStr ''USA'') (JStr ''10118'')"

definition flaky_service :: "json \<Rightarrow> service" where
  "flaky_service r = (\<lambda>k req. if k = 0 then None else Some r)"



text \<open>A call answered with the coordinate pair \<^verbatim>\<open>[10, NaN]\<close>.\<close>

definition nan_call :: "(pyerror + unit) \<times> address \<times> world" where
  "nan_call = geocode (const_service (geo_response (Num 10) NaN)) address0 world0"

section \<open>DistanceMatrix.py\<close>

text \<open>
  A Python list is an object: \<^verbatim>\<open>__last_requested = geocodes\<close> keeps the caller's list
  itself, not a copy. A heap gives the current contents of every list object;
  \<^verbatim>\<open>get_matrix\<close> only reads it, the caller may change it between two calls
  (\<^verbatim>\<open>g.append(x)\<close> is \<open>h(g := h g @ [x])\<close>). The object at \<open>class_list\<close> is the empty
  list the class body creates.
\<close>

type_synonym ref = nat

type_synonym heap = "ref \<Rightarrow> string list"

definition class_list :: ref where
  "class_list = 0"

definition heap0 :: heap where
  "heap0 = (\<lambda>r. [])"

text \<open>The class attributes.\<close>

record dm_state =
  response :: json
  last_requested :: ref
  number_of_requests_saved :: int
  number_of_requests_made :: int

definition dm_init :: dm_state where
  "dm_init = \<lparr>response = JObj [], last_requested = class_list,
              number_of_requests_saved = 0, number_of_requests_made = 0\<rparr>"

definition identical_list :: "string list \<Rightarrow> string list \<Rightarrow> bool" where
  "identical_list list1 list2 =
     (card (set list1 - set list2) = 0 \<and> card (set list2 - set list1) = 0)"

text \<open>\<^verbatim>\<open>len(response) == 0 or response['statusCode'] != 200\<close>\<close>

definition condition1 :: "json \<Rightarrow> pyerror + bool" where
  "condition1 r =
     py_bind (py_len r) (\<lambda>n.
       if n = 0 then Inr True
       else py_bind (getitem r ''statusCode'') (\<lambda>c. Inr (c \<noteq> JNum (Num 200))))"

definition matrix_request :: "string list \<Rightarrow> string \<Rightarrow> string \<Rightarrow> http_request" where
  "matrix_request geocodes api_key travelMode =
     \<lparr>url = ''https://dev.virtualearth.net/REST/v1/Routes/DistanceMatrix?'',
      params = [(''origins'', (JStr (join ''; '' geocodes))),
                (''destinations'', (JStr (join ''; '' geocodes))),
                (''travelMode'', (JStr travelMode)),
                (''key'', (JStr api_key))]\<rparr>"

definition request_matrix ::
  "service \<Rightarrow> heap \<Rightarrow> ref \<Rightarrow> string \<Rightarrow> string \<Rightarrow> dm_state \<Rightarrow> world
     \<Rightarrow> (pyerror + json) \<times> dm_state \<times> world" where
  "request_matrix svc h geocodes api_key travelMode s w =
     (let s1 = s\<lparr>number_of_requests_made := number_of_requests_made s + 1\<rparr> in
      case condition1 (response s1) of
        Inl e \<Rightarrow> (Inl e, s1, w)
      | Inr c1 \<Rightarrow>
          let c2 = \<not> identical_list (h (last_requested s1)) (h geocodes) in
          if c1 \<or> c2 then
            (let s2 = s1\<lparr>last_requested := geocodes\<rparr> in
             case http_get_json svc (matrix_request (h geocodes) api_key travelMode) w of
               (Inl e, w') \<Rightarrow> (Inl e, s2, w')
             | (Inr r, w') \<Rightarrow> (Inr r, s2\<lparr>response := r\<rparr>, w'))
          else
            (Inr (response s1),
             s1\<lparr>number_of_requests_saved := number_of_requests_saved s1 + 1\<rparr>, w))"

text \<open>\<^verbatim>\<open>{key : item[key] for key in ["travelDistance", "travelDuration"]}\<close>\<close>

definition cell_of :: "json \<Rightarrow> pyerror + json" where
  "cell_of item =
     py_bind (getitem item ''travelDistance'') (\<lambda>d.
     py_bind (getitem item ''travelDuration'') (\<lambda>t.
       Inr (JObj [(''travelDistance'', d), (''travelDuration'', t)])))"

text \<open>The loop of \<^verbatim>\<open>__build_matrix\<close>: \<open>n\<close> is \<^verbatim>\<open>len(geocodes)\<close>, \<open>counter\<close> the index
  of the next item, \<open>row\<close> and \<open>matrix\<close> the two lists being filled.\<close>

fun build_rows ::
  "nat \<Rightarrow> nat \<Rightarrow> json list \<Rightarrow> json list \<Rightarrow> json list list \<Rightarrow> pyerror + json list list" where
  "build_rows n counter [] row matrix = Inr matrix"
| "build_rows n counter (item # items) row matrix =
     (case cell_of item of
        Inl e \<Rightarrow> Inl e
      | Inr result \<Rightarrow>
          if n = 0 then Inl ZeroDivisionError
          else if (counter + 1) mod n = 0
            then build_rows n (counter + 1) items [] (matrix @ [row @ [result]])
            else build_rows n (counter + 1) items (row @ [result]) matrix)"

text \<open>\<^verbatim>\<open>response["resourceSets"][0]['resources'][0]['results']\<close>\<close>

definition results_of :: "json \<Rightarrow> pyerror + json" where
  "results_of r =
     py_bind (getitem r ''resourceSets'') (\<lambda>sets.
     py_bind (getitem0 sets) (\<lambda>set0.
     py_bind (getitem set0 ''resources'') (\<lambda>rs.
     py_bind (getitem0 rs) (\<lambda>r0. getitem r0 ''results''))))"

definition build_matrix ::
  "string list \<Rightarrow> json \<Rightarrow> world \<Rightarrow> (pyerror + json list list) \<times> world" where
  "build_matrix geocodes r w =
     (case getitem r ''statusCode'' of
        Inl e \<Rightarrow> (Inl e, w)
      | Inr c \<Rightarrow>
          if c = JNum (Num 200) then
            (py_bind (results_of r) (\<lambda>res.
             py_bind (py_iter res) (\<lambda>items. build_rows (length geocodes) 0 items [] [])), w)
          else
            (case getitem r ''statusDescription'' of
               Inl e \<Rightarrow> (Inl e, w)
             | Inr d \<Rightarrow> (Inr [], w\<lparr>stdout := stdout w @ [Execution_stopped c d]\<rparr>)))"

text \<open>A comprehension or a loop whose body may raise: the first error stops it.\<close>

fun map_err :: "('a \<Rightarrow> pyerror + 'b) \<Rightarrow> 'a list \<Rightarrow> pyerror + 'b list" where
  "map_err f [] = Inr []"
| "map_err f (x # xs) =
     (case f x of
        Inl e \<Rightarrow> Inl e
      | Inr y \<Rightarrow> (case map_err f xs of Inl e \<Rightarrow> Inl e | Inr ys \<Rightarrow> Inr (y # ys)))"

definition get_matrix ::
  "service \<Rightarrow> heap \<Rightarrow> ref \<Rightarrow> string \<Rightarrow> string \<Rightarrow> string \<Rightarrow> dm_state \<Rightarrow> world
     \<Rightarrow> (pyerror + json list list) \<times> dm_state \<times> world" where
  "get_matrix svc h geocodes api_key key travelMode s w =
     (if key \<notin> set [''travelDistance'', ''travelDuration''] then (Inr [], s, w)
      else
        (case request_matrix svc h geocodes api_key travelMode s w of
           (Inl e, s', w') \<Rightarrow> (Inl e, s', w')
         | (Inr r, s', w') \<Rightarrow>
             (case build_matrix (h geocodes) r w' of
                (Inl e, w'') \<Rightarrow> (Inl e, s', w'')
              | (Inr grid, w'') \<Rightarrow>
                  (map_err (map_err (\<lambda>x. getitem x key)) grid, s', w''))))"

text \<open>The condition under which the code issues a new request: no prior response exists,
  or the prior response's status code is not 200, or the requested coordinates differ as
  a set from what the kept list object holds now.\<close>

definition new_request_needed :: "heap \<Rightarrow> dm_state \<Rightarrow> ref \<Rightarrow> bool" where
  "new_request_needed h s geocodes =
     (response s = JObj []
      \<or> getitem (response s) ''statusCode'' \<noteq> Inr (JNum (Num 200))
      \<or> set (h (last_requested s)) \<noteq> set (h geocodes))"

subsection \<open>Responses of the routing service, for the examples\<close>

definition entry :: "real \<Rightarrow> real \<Rightarrow> json" where
  "entry d t = JObj [(''travelDistance'', JNum (Num d)), (''travelDuration'', JNum (Num t))]"

definition ok_response :: "json list \<Rightarrow> json" where
  "ok_response items =
     JObj [(''statusCode'', JNum (Num 200)), (''statusDescription'', JStr ''OK''),
           (''resourceSets'',
              JArr [JObj [(''resources'', JArr [JObj [(''results'', JArr items)]])]])]"

definition failed_response :: json where
  "failed_response =
     JObj [(''statusCode'', JNum (Num 401)), (''statusDescription'', JStr ''Unauthorized'')]"

definition four_entries :: "json list" where
  "four_entries = [entry 0 0, entry 5 50, entry 6 60, entry 0 0]"

definition nine_entries :: "json list" where
  "nine_entries = [entry 0 0, entry 1 10, entry 2 20, entry 3 30, entry 0 0, entry 5 50,
                   entry 6 60, entry 7 70, entry 0 0]"

subsection \<open>A caller that changes its list between two calls\<close>

text \<open>\<^verbatim>\<open>g = ['A', 'B']\<close> is the list object at reference 1.\<close>

definition heap_ab :: heap where
  "heap_ab = heap0(1 := [''A'', ''B''])"

definition first_call :: "(pyerror + json list list) \<times> dm_state \<times> world" where
  "first_call = get_matrix (const_service (ok_response four_entries)) heap_ab 1 ''k''
                  ''travelDistance'' ''driving'' dm_init world0"

text \<open>\<^verbatim>\<open>g.append('C')\<close>, then the second call with \<open>g\<close>.\<close>

definition heap_abc :: heap where
  "heap_abc = heap_ab(1 := heap_ab 1 @ [''C''])"

definition second_call :: "(pyerror + json list list) \<times> dm_state \<times> world" where
  "second_call = get_matrix (const_service (ok_response four_entries)) heap_abc 1 ''k''
                   ''travelDistance'' ''driving'' (fst (snd first_call)) (snd (snd first_call))"

text \<open>Instead: the second call with a new list \<^verbatim>\<open>['A', 'B', 'C']\<close>, and with a new list
  \<^verbatim>\<open>['B', 'A']\<close>, at reference 2, \<open>g\<close> unchanged.\<close>

definition second_call_fresh :: "(pyerror + json list list) \<times> dm_state \<times> world" where
  "second_call_fresh =
     get_matrix (const_service (ok_response four_entries))
       (heap_ab(2 := [''A'', ''B'', ''C''])) 2 ''k''
       ''travelDistance'' ''driving'' (fst (snd first_call)) (snd (snd first_call))"

definition second_call_reordered :: "(pyerror + json list list) \<times> dm_state \<times> world" where
  "second_call_reordered =
     get_matrix (const_service (ok_response four_entries))
       (heap_ab(2 := [''B'', ''A''])) 2 ''k''
       ''travelDistance'' ''driving'' (fst (snd first_call)) (snd (snd first_call))"

text \<open>Row-major grouping, as the spec words it: consecutive runs of length \<open>n\<close>, one
  row per run, complete rows only.\<close>

function rows_of :: "nat \<Rightarrow> 'a list \<Rightarrow> 'a list list" where
  "rows_of n xs = (if n = 0 \<or> length xs < n then [] else take n xs # rows_of n (drop n xs))"
  by pat_completeness auto
termination
  by (relation "measure (\<lambda>(n, xs). length xs)") auto

declare rows_of.simps [simp del]

section \<open>Properties of the distance matrix cache\<close>

lemmas eval_defs = get_matrix_def request_matrix_def condition1_def py_bind_def
  identical_list_def http_get_json_def const_service_def build_matrix_def results_of_def
  ok_response_def failed_response_def entry_def cell_of_def Let_def dm_init_def world0_def
  matrix_request_def mod_Suc heap0_def class_list_def

lemma identical_list_iff: "identical_list xs ys \<longleftrightarrow> set xs = set ys"
  by (auto simp: identical_list_def)

lemma condition1_empty: "condition1 (JObj []) = Inr True"
  by (simp add: condition1_def py_bind_def)

lemma condition1_status:
  "getitem r ''statusCode'' = Inr c \<Longrightarrow> condition1 r = Inr (c \<noteq> JNum (Num 200))"
  by (cases r) (auto simp: condition1_def py_bind_def split: option.splits)

text \<open>What \<^verbatim>\<open>__request_matrix\<close> does on a cache that is empty or carries a status code.\<close>

lemma request_matrix_cases:
  assumes "response s = JObj [] \<or> (\<exists>c. getitem (response s) ''statusCode'' = Inr c)"
  shows "request_matrix svc h geocodes api_key travelMode s w =
     (if new_request_needed h s geocodes
      then (case svc (length (sent w)) (matrix_request (h geocodes) api_key travelMode) of
              None \<Rightarrow> (Inl RequestException,
                       s\<lparr>number_of_requests_made := number_of_requests_made s + 1,
                         last_requested := geocodes\<rparr>,
                       w\<lparr>sent := sent w @ [matrix_request (h geocodes) api_key travelMode]\<rparr>)
            | Some r \<Rightarrow> (Inr r, s\<lparr>number_of_requests_made := number_of_requests_made s + 1,
                                  last_requested := geocodes, response := r\<rparr>,
                         w\<lparr>sent := sent w @ [matrix_request (h geocodes) api_key travelMode]\<rparr>))
      else (Inr (response s),
            s\<lparr>number_of_requests_made := number_of_requests_made s + 1,
              number_of_requests_saved := number_of_requests_saved s + 1\<rparr>, w))"
  using assms
proof
  assume "response s = JObj []"
  then show ?thesis
    by (simp add: request_matrix_def new_request_needed_def condition1_empty
        http_get_json_def Let_def split: option.splits)
next
  assume "\<exists>c. getitem (response s) ''statusCode'' = Inr c"
  then obtain c where c: "getitem (response s) ''statusCode'' = Inr c" by blast
  then have ne: "response s \<noteq> JObj []" by auto
  show ?thesis
    using c ne
    by (simp add: request_matrix_def new_request_needed_def condition1_status
        identical_list_iff http_get_json_def Let_def split: option.splits)
qed

lemma request_matrix_made:
  "request_matrix svc h g k m s w = (res, s', w') \<Longrightarrow>
   number_of_requests_made s' = number_of_requests_made s + 1"
  by (auto simp: request_matrix_def Let_def http_get_json_def
      split: sum.splits if_splits prod.splits option.splits)

lemma build_matrix_sent: "build_matrix g r w = (res, w') \<Longrightarrow> sent w' = sent w"
  by (auto simp: build_matrix_def split: sum.splits if_splits)

text \<open>With a recognized metric, the class attributes and the requests sent after
  \<^verbatim>\<open>get_matrix\<close> are those after its call of \<^verbatim>\<open>__request_matrix\<close>.\<close>

lemma get_matrix_request:
  assumes "key \<in> {''travelDistance'', ''travelDuration''}"
      and "get_matrix svc h geocodes api_key key travelMode s w = (res, s', w')"
  shows "\<exists>r w1. request_matrix svc h geocodes api_key travelMode s w = (r, s', w1)
           \<and> sent w' = sent w1"
  using assms
  by (auto simp: get_matrix_def split: sum.splits prod.splits dest: build_matrix_sent)

text \<open>What \<^verbatim>\<open>get_matrix\<close> does about the request, on a cache that is empty or carries a
  status code: the comparison is with what the kept list object holds at the time of the
  call.\<close>

lemma request_decision:
  assumes "key \<in> {''travelDistance'', ''travelDuration''}"
      and "response s = JObj [] \<or> (\<exists>c. getitem (response s) ''statusCode'' = Inr c)"
      and "get_matrix svc h geocodes api_key key travelMode s w = (res, s', w')"
  shows "(sent w' \<noteq> sent w) = new_request_needed h s geocodes \<and>
         (if new_request_needed h s geocodes
          then sent w' = sent w @ [matrix_request (h geocodes) api_key travelMode]
             \<and> number_of_requests_saved s' = number_of_requests_saved s
          else sent w' = sent w
             \<and> number_of_requests_saved s' = number_of_requests_saved s + 1
             \<and> response s' = response s
             \<and> request_matrix svc h geocodes api_key travelMode s w = (Inr (response s), s', w))"
proof -
  obtain r w1 where rq: "request_matrix svc h geocodes api_key travelMode s w = (r, s', w1)"
    and sw: "sent w' = sent w1"
    using get_matrix_request[OF assms(1,3)] by blast
  show ?thesis
    using rq sw unfolding request_matrix_cases[OF assms(2)]
    by (auto split: if_splits option.splits)
qed

lemma first_call_value:
  "first_call =
    (Inr [[JNum (Num 0), JNum (Num 5)], [JNum (Num 6), JNum (Num 0)]],
     \<lparr>response = ok_response four_entries, last_requested = 1,
      number_of_requests_saved = 0, number_of_requests_made = 1\<rparr>,
     \<lparr>sent = [matrix_request [''A'', ''B''] ''k'' ''driving''], stdout = []\<rparr>)"
  by (simp add: first_call_def heap_ab_def eval_defs four_entries_def)

text \<open>
  C1. The claim fails on the code when the caller changes its list between two calls:
  after \<^verbatim>\<open>g = ['A', 'B']\<close>, a first call and \<^verbatim>\<open>g.append('C')\<close>, the second call with
  \<open>g\<close> sends no request and counts a saved one, although the coordinates differ as a set
  from the previously requested ones: the cache kept the list \<open>g\<close> itself and compares it
  with itself. The same coordinates in another list object do cause a request, and the
  same set in another order and another object reuses the cache.
\<close>

theorem stale_cache_after_mutation:
  "set (heap_abc 1) \<noteq> set (heap_ab 1)
   \<and> sent (snd (snd second_call)) = sent (snd (snd first_call))
   \<and> length (sent (snd (snd second_call))) = 1
   \<and> number_of_requests_saved (fst (snd second_call)) = 1
   \<and> response (fst (snd second_call)) = ok_response four_entries
   \<and> fst second_call = Inr [[JNum (Num 0), JNum (Num 5), JNum (Num 6)]]
   \<and> length (sent (snd (snd second_call_fresh))) = 2
   \<and> sent (snd (snd second_call_reordered)) = sent (snd (snd first_call))
   \<and> number_of_requests_saved (fst (snd second_call_reordered)) = 1"
proof (rule conjI)
  have "''C'' \<in> set (heap_abc 1)" and "''C'' \<notin> set (heap_ab 1)"
    by (simp_all add: heap_abc_def heap_ab_def heap0_def)
  then show "set (heap_abc 1) \<noteq> set (heap_ab 1)" by blast
  show "sent (snd (snd second_call)) = sent (snd (snd first_call))
   \<and> length (sent (snd (snd second_call))) = 1
   \<and> number_of_requests_saved (fst (snd second_call)) = 1
   \<and> response (fst (snd second_call)) = ok_response four_entries
   \<and> fst second_call = Inr [[JNum (Num 0), JNum (Num 5), JNum (Num 6)]]
   \<and> length (sent (snd (snd second_call_fresh))) = 2
   \<and> sent (snd (snd second_call_reordered)) = sent (snd (snd first_call))
   \<and> number_of_requests_saved (fst (snd second_call_reordered)) = 1"
    by (simp add: second_call_def second_call_fresh_def second_call_reordered_def
        first_call_value heap_abc_def heap_ab_def eval_defs four_entries_def)
qed

text \<open>
  C3, as amended. With a recognized metric every invocation of \<^verbatim>\<open>get_matrix\<close>
  increments the requests-made counter by exactly one, whether the cache is reused, a
  request is sent, or the call raises; with any other metric the counter is unchanged.
\<close>

theorem requests_made_counter:
  "number_of_requests_made (fst (snd (get_matrix svc h geocodes api_key key travelMode s w))) =
     (if key \<in> {''travelDistance'', ''travelDuration''}
      then number_of_requests_made s + 1 else number_of_requests_made s)"
proof (cases "key \<in> {''travelDistance'', ''travelDuration''}")
  case True
  obtain res s' w' where g: "get_matrix svc h geocodes api_key key travelMode s w = (res, s', w')"
    by (cases "get_matrix svc h geocodes api_key key travelMode s w") auto
  from get_matrix_request[OF True g] obtain r w1
    where "request_matrix svc h geocodes api_key travelMode s w = (r, s', w1)" by blast
  from request_matrix_made[OF this] show ?thesis using True g by simp
next
  case False
  then show ?thesis by (simp add: get_matrix_def)
qed

theorem requests_made_counter_witness:
  "number_of_requests_made (fst (snd (get_matrix (const_service failed_response)
       (heap0(1 := [''A'', ''B''])) 1 ''k'' ''travelDuration'' ''driving'' dm_init world0))) = 1
   \<and> number_of_requests_made (fst (snd (get_matrix (const_service failed_response)
       (heap0(1 := [''A'', ''B''])) 1 ''k'' ''speed'' ''driving'' dm_init world0))) = 0"
  using requests_made_counter[of "const_service failed_response" "heap0(1 := [''A'', ''B''])" 1 "''k''"
      "''travelDuration''" "''driving''" dm_init world0]
    requests_made_counter[of "const_service failed_response" "heap0(1 := [''A'', ''B''])" 1 "''k''"
      "''speed''" "''driving''" dm_init world0]
  by (simp add: dm_init_def)

text \<open>The claim as stated (the counter goes up whatever the metric) fails for the metric
  \<open>speed\<close>: the call returns before \<^verbatim>\<open>__request_matrix\<close> is reached.\<close>

theorem requests_made_counterexample:
  "number_of_requests_made (fst (snd (get_matrix (const_service failed_response)
       (heap0(1 := [''A'', ''B''])) 1 ''k'' ''speed'' ''driving'' dm_init world0)))
     \<noteq> number_of_requests_made dm_init + 1"
  by (simp add: get_matrix_def dm_init_def)

text \<open>
  C7. When the response that \<^verbatim>\<open>get_matrix\<close> works on carries a status code other than
  200 and a status description, the call returns the empty matrix (it does not raise) and
  prints the line naming that code and description.
\<close>

theorem get_matrix_degraded:
  assumes "key \<in> {''travelDistance'', ''travelDuration''}"
      and "request_matrix svc h geocodes api_key travelMode s w = (Inr r, s', w')"
      and "getitem r ''statusCode'' = Inr c" and "c \<noteq> JNum (Num 200)"
      and "getitem r ''statusDescription'' = Inr d"
  shows "get_matrix svc h geocodes api_key key travelMode s w =
           (Inr [], s', w'\<lparr>stdout := stdout w' @ [Execution_stopped c d]\<rparr>)"
  using assms by (auto simp: get_matrix_def build_matrix_def)

theorem get_matrix_degraded_witness:
  "get_matrix (const_service failed_response) (heap0(1 := [''A'', ''B''])) 1 ''k'' ''travelDistance''
      ''driving'' dm_init world0 =
     (Inr [],
      \<lparr>response = failed_response, last_requested = 1,
       number_of_requests_saved = 0, number_of_requests_made = 1\<rparr>,
      \<lparr>sent = [matrix_request [''A'', ''B''] ''k'' ''driving''],
       stdout = [Execution_stopped (JNum (Num 401)) (JStr ''Unauthorized'')]\<rparr>)"
proof -
  have rq: "request_matrix (const_service failed_response) (heap0(1 := [''A'', ''B''])) 1 ''k'' ''driving''
      dm_init world0 =
     (Inr failed_response,
      \<lparr>response = failed_response, last_requested = 1,
       number_of_requests_saved = 0, number_of_requests_made = 1\<rparr>,
      \<lparr>sent = [matrix_request [''A'', ''B''] ''k'' ''driving''], stdout = []\<rparr>)"
    by (simp add: request_matrix_def condition1_def py_bind_def http_get_json_def
        const_service_def dm_init_def world0_def Let_def heap0_def class_list_def
        identical_list_def matrix_request_def)
  have "get_matrix (const_service failed_response) (heap0(1 := [''A'', ''B''])) 1 ''k'' ''travelDistance''
      ''driving'' dm_init world0 =
     (Inr [],
      \<lparr>response = failed_response, last_requested = 1,
       number_of_requests_saved = 0, number_of_requests_made = 1\<rparr>,
      \<lparr>sent = [matrix_request [''A'', ''B''] ''k'' ''driving''], stdout = []\<rparr>
        \<lparr>stdout := stdout \<lparr>sent = [matrix_request [''A'', ''B''] ''k'' ''driving''],
                              stdout = []\<rparr>
                     @ [Execution_stopped (JNum (Num 401)) (JStr ''Unauthorized'')]\<rparr>)"
    by (rule get_matrix_degraded[OF _ rq]) (simp_all add: failed_response_def)
  then show ?thesis by simp
qed

text \<open>
  C8. For every metric other than \<open>travelDistance\<close> and \<open>travelDuration\<close>,
  \<^verbatim>\<open>get_matrix\<close> returns the empty list, does not raise, sends no request and leaves the
  class attributes as they were.
\<close>

theorem get_matrix_unrecognized_metric:
  "key \<notin> {''travelDistance'', ''travelDuration''} \<Longrightarrow>
   get_matrix svc h geocodes api_key key travelMode s w = (Inr [], s, w)"
  by (simp add: get_matrix_def)

theorem get_matrix_unrecognized_metric_witness:
  "get_matrix (const_service failed_response) (heap0(1 := [''A'', ''B''])) 1 ''k'' ''speed'' ''driving''
      dm_init world0 = (Inr [], dm_init, world0)"
  by (rule get_matrix_unrecognized_metric) simp

text \<open>
  C9. With an empty coordinate list, a recognized metric and a response (new or cached)
  of status code 200 whose flat result list is not empty, \<^verbatim>\<open>get_matrix\<close> raises instead
  of returning a matrix; the error is the division by zero of the reshape step as soon as
  the first entry carries the two fields.
\<close>

theorem get_matrix_empty_geocodes:
  assumes "key \<in> {''travelDistance'', ''travelDuration''}"
      and "h geocodes = []"
      and "request_matrix svc h geocodes api_key travelMode s w = (Inr r, s', w')"
      and "getitem r ''statusCode'' = Inr (JNum (Num 200))"
      and "results_of r = Inr (JArr (item # items))"
  shows "\<exists>e. get_matrix svc h geocodes api_key key travelMode s w = (Inl e, s', w') \<and>
           ((\<exists>d t. getitem item ''travelDistance'' = Inr d
                  \<and> getitem item ''travelDuration'' = Inr t)
              \<longrightarrow> e = ZeroDivisionError)"
  using assms
  by (auto simp: get_matrix_def build_matrix_def py_bind_def cell_of_def split: sum.splits)

theorem get_matrix_empty_geocodes_witness:
  "get_matrix (const_service (ok_response [entry 4 2])) heap0 1 ''k'' ''travelDistance''
      ''driving'' dm_init world0 =
     (Inl ZeroDivisionError,
      \<lparr>response = ok_response [entry 4 2], last_requested = 1,
       number_of_requests_saved = 0, number_of_requests_made = 1\<rparr>,
      \<lparr>sent = [matrix_request [] ''k'' ''driving''], stdout = []\<rparr>)"
proof -
  have key: "''travelDistance'' \<in> {''travelDistance'', ''travelDuration''}" by simp
  have empty: "heap0 1 = []" by (simp add: heap0_def)
  have rq: "request_matrix (const_service (ok_response [entry 4 2])) heap0 1 ''k'' ''driving''
      dm_init world0 =
     (Inr (ok_response [entry 4 2]),
      \<lparr>response = ok_response [entry 4 2], last_requested = 1,
       number_of_requests_saved = 0, number_of_requests_made = 1\<rparr>,
      \<lparr>sent = [matrix_request [] ''k'' ''driving''], stdout = []\<rparr>)"
    by (simp add: request_matrix_def condition1_def py_bind_def http_get_json_def
        const_service_def dm_init_def world0_def Let_def heap0_def class_list_def
        identical_list_def matrix_request_def)
  have st: "getitem (ok_response [entry 4 2]) ''statusCode'' = Inr (JNum (Num 200))"
    by (simp add: ok_response_def)
  have rs: "results_of (ok_response [entry 4 2]) = Inr (JArr (entry 4 2 # []))"
    by (simp add: ok_response_def results_of_def py_bind_def)
  have fields: "\<exists>d t. getitem (entry 4 2) ''travelDistance'' = Inr d
                  \<and> getitem (entry 4 2) ''travelDuration'' = Inr t"
    by (simp add: entry_def)
  from get_matrix_empty_geocodes[OF key empty rq st rs] fields show ?thesis by auto
qed

lemma rows_of_short: "length xs < n \<Longrightarrow> rows_of n xs = []"
  by (simp add: rows_of.simps)

lemma rows_of_append:
  "0 < n \<Longrightarrow> length xs = n \<Longrightarrow> rows_of n (xs @ ys) = xs # rows_of n ys"
  by (subst rows_of.simps) simp

lemma build_rows_rows_of:
  assumes "0 < n" and "\<forall>item \<in> set items. cell_of item = Inr (f item)"
      and "length row = counter mod n"
  shows "build_rows n counter items row matrix = Inr (matrix @ rows_of n (row @ map f items))"
  using assms(2,3)
proof (induction items arbitrary: counter row matrix)
  case Nil
  with assms(1) show ?case by (simp add: rows_of_short)
next
  case (Cons item items)
  have cell: "cell_of item = Inr (f item)" using Cons.prems(1) by simp
  have rest: "\<forall>i \<in> set items. cell_of i = Inr (f i)" using Cons.prems(1) by simp
  show ?case
  proof (cases "(counter + 1) mod n = 0")
    case True
    with assms(1) Cons.prems(2) have full: "length (row @ [f item]) = n"
      by (simp add: mod_Suc split: if_splits)
    have "build_rows n (counter + 1) items [] (matrix @ [row @ [f item]]) =
            Inr ((matrix @ [row @ [f item]]) @ rows_of n ([] @ map f items))"
      using True by (intro Cons.IH rest) simp
    moreover have "rows_of n (row @ map f (item # items)) = (row @ [f item]) # rows_of n (map f items)"
      using rows_of_append[OF assms(1) full, of "map f items"] by simp
    ultimately show ?thesis using True assms(1) cell by simp
  next
    case False
    with assms(1) Cons.prems(2) have len: "length (row @ [f item]) = (counter + 1) mod n"
      by (simp add: mod_Suc split: if_splits)
    have "build_rows n (counter + 1) items (row @ [f item]) matrix =
            Inr (matrix @ rows_of n ((row @ [f item]) @ map f items))"
      by (intro Cons.IH rest len)
    then show ?thesis using False assms(1) cell by simp
  qed
qed

lemma rows_of_nth:
  assumes "0 < n"
  shows "length xs = k * n \<Longrightarrow>
         length (rows_of n xs) = k \<and> (\<forall>i < k. rows_of n xs ! i = take n (drop (i * n) xs))"
proof (induction k arbitrary: xs)
  case 0
  then show ?case using assms by (simp add: rows_of_short)
next
  case (Suc k)
  then have len: "length (drop n xs) = k * n" by simp
  have unfold: "rows_of n xs = take n xs # rows_of n (drop n xs)"
    using Suc.prems assms by (subst rows_of.simps) simp
  from Suc.IH[OF len] have L: "length (rows_of n (drop n xs)) = k"
    and N: "\<And>i. i < k \<Longrightarrow> rows_of n (drop n xs) ! i = take n (drop (i * n) (drop n xs))"
    by auto
  show ?case
  proof (intro conjI allI impI)
    show "length (rows_of n xs) = Suc k" using unfold L by simp
  next
    fix i assume "i < Suc k"
    then show "rows_of n xs ! i = take n (drop (i * n) xs)"
      using unfold N by (cases i) (auto simp: add.commute)
  qed
qed

lemma rows_of_subset: "row \<in> set (rows_of n xs) \<Longrightarrow> set row \<subseteq> set xs"
proof (induction n xs rule: rows_of.induct)
  case (1 n xs)
  show ?case
  proof (cases "n = 0 \<or> length xs < n")
    case True
    with "1.prems" show ?thesis by (simp add: rows_of.simps)
  next
    case False
    with "1.prems" have "row = take n xs \<or> row \<in> set (rows_of n (drop n xs))"
      by (subst (asm) rows_of.simps) auto
    then show ?thesis
    proof
      assume "row = take n xs" then show ?thesis by (auto dest: in_set_takeD)
    next
      assume "row \<in> set (rows_of n (drop n xs))"
      from "1.IH"[OF False this] show ?thesis by (auto dest: in_set_dropD)
    qed
  qed
qed

lemma map_err_map: "\<forall>x \<in> set xs. f x = Inr (g x) \<Longrightarrow> map_err f xs = Inr (map g xs)"
  by (induction xs) auto

lemma cell_of_fields:
  "getitem item ''travelDistance'' = Inr d \<Longrightarrow> getitem item ''travelDuration'' = Inr t \<Longrightarrow>
   cell_of item = Inr (JObj [(''travelDistance'', d), (''travelDuration'', t)])"
  by (simp add: cell_of_def py_bind_def)

lemma cell_of_key:
  assumes "cell_of item = Inr c" and "key \<in> {''travelDistance'', ''travelDuration''}"
  shows "getitem c key = getitem item key"
  using assms by (auto simp: cell_of_def py_bind_def split: sum.splits)

lemma build_matrix_ok:
  assumes "getitem r ''statusCode'' = Inr (JNum (Num 200))"
      and "results_of r = Inr (JArr items)"
      and "length items = length geocodes * length geocodes"
      and "\<forall>item \<in> set items. cell_of item = Inr (f item)"
  shows "build_matrix geocodes r w = (Inr (rows_of (length geocodes) (map f items)), w)"
proof (cases "length geocodes = 0")
  case True
  with assms(3) have "items = []" by simp
  with True assms(1,2) show ?thesis
    by (simp add: build_matrix_def py_bind_def rows_of.simps)
next
  case False
  then have "build_rows (length geocodes) 0 items [] [] =
               Inr ([] @ rows_of (length geocodes) ([] @ map f items))"
    by (intro build_rows_rows_of assms(4)) simp_all
  with assms(1,2) show ?thesis
    by (simp add: build_matrix_def py_bind_def)
qed

text \<open>
  C2. When the response that \<^verbatim>\<open>get_matrix\<close> works on has status code 200 and a flat
  result list of \<open>n * n\<close> entries, each carrying the two fields, where \<open>n\<close> is the number
  of coordinates, the call returns an \<open>n\<close> by \<open>n\<close> matrix whose cell \<open>[i][j]\<close> is the
  requested field of entry \<open>i * n + j\<close>.
\<close>

theorem get_matrix_reshape:
  assumes "key \<in> {''travelDistance'', ''travelDuration''}"
      and "request_matrix svc h geocodes api_key travelMode s w = (Inr r, s', w')"
      and "getitem r ''statusCode'' = Inr (JNum (Num 200))"
      and "results_of r = Inr (JArr items)"
      and "length items = length (h geocodes) * length (h geocodes)"
      and "\<forall>item \<in> set items. \<exists>d t. getitem item ''travelDistance'' = Inr d
                                  \<and> getitem item ''travelDuration'' = Inr t"
  shows "\<exists>m. get_matrix svc h geocodes api_key key travelMode s w = (Inr m, s', w')
           \<and> length m = length (h geocodes)
           \<and> (\<forall>i < length (h geocodes). length (m ! i) = length (h geocodes)
                \<and> (\<forall>j < length (h geocodes).
                      getitem (items ! (i * length (h geocodes) + j)) key = Inr (m ! i ! j)))"
proof -
  define n where "n = length (h geocodes)"
  define f where "f = (\<lambda>item. projr (cell_of item))"
  define g where "g = (\<lambda>x. projr (getitem x key))"
  define cells where "cells = map f items"
  define grid where "grid = rows_of n cells"
  have cell: "\<forall>item \<in> set items. cell_of item = Inr (f item)"
    using assms(6) by (auto simp: f_def dest!: bspec dest: cell_of_fields)
  have metric: "\<forall>item \<in> set items. getitem (f item) key = Inr (g (f item))
                  \<and> getitem item key = Inr (g (f item))"
  proof
    fix item assume "item \<in> set items"
    with cell have c: "cell_of item = Inr (f item)" by blast
    from \<open>item \<in> set items\<close> assms(1,6) obtain v where v: "getitem item key = Inr v" by auto
    with cell_of_key[OF c assms(1)] show "getitem (f item) key = Inr (g (f item))
                  \<and> getitem item key = Inr (g (f item))"
      by (simp add: g_def)
  qed
  have bm: "build_matrix (h geocodes) r w' = (Inr grid, w')"
    unfolding grid_def cells_def n_def by (rule build_matrix_ok[OF assms(3,4,5) cell])
  have "\<forall>row \<in> set grid. map_err (\<lambda>x. getitem x key) row = Inr (map g row)"
  proof
    fix row assume "row \<in> set grid"
    then have "set row \<subseteq> set cells" unfolding grid_def by (rule rows_of_subset)
    with metric have "\<forall>x \<in> set row. getitem x key = Inr (g x)"
      by (auto simp: cells_def)
    then show "map_err (\<lambda>x. getitem x key) row = Inr (map g row)" by (rule map_err_map)
  qed
  then have proj: "map_err (map_err (\<lambda>x. getitem x key)) grid = Inr (map (map g) grid)"
    by (rule map_err_map)
  have run: "get_matrix svc h geocodes api_key key travelMode s w = (Inr (map (map g) grid), s', w')"
    using assms(1,2) bm proj by (auto simp: get_matrix_def)
  have shape: "length grid = n \<and> (\<forall>i < n. grid ! i = take n (drop (i * n) cells))"
  proof (cases "n = 0")
    case True
    then show ?thesis by (simp add: grid_def rows_of.simps)
  next
    case False
    then show ?thesis unfolding grid_def
      using assms(5) by (intro rows_of_nth) (simp_all add: cells_def n_def)
  qed
  have len: "length cells = n * n" using assms(5) by (simp add: cells_def n_def)
  have entries: "length (map (map g) grid ! i) = n \<and>
       (\<forall>j < n. getitem (items ! (i * n + j)) key = Inr (map (map g) grid ! i ! j))"
    if i: "i < n" for i
  proof -
    have bound: "i * n + n \<le> n * n"
    proof -
      have "Suc i * n \<le> n * n" using i by (intro mult_le_mono1) simp
      then show ?thesis by (simp add: add.commute)
    qed
    have row: "map (map g) grid ! i = map g (take n (drop (i * n) cells))"
      using shape i by simp
    have rl: "length (take n (drop (i * n) cells)) = n" using len bound by simp
    show ?thesis
    proof (intro conjI allI impI)
      show "length (map (map g) grid ! i) = n" using row rl by simp
    next
      fix j assume j: "j < n"
      then have k: "i * n + j < length items" using bound len by (simp add: cells_def)
      have "map (map g) grid ! i ! j = g (cells ! (i * n + j))"
        using row rl j by simp
      also have "\<dots> = g (f (items ! (i * n + j)))" using k by (simp add: cells_def)
      finally show "getitem (items ! (i * n + j)) key = Inr (map (map g) grid ! i ! j)"
        using metric k by simp
    qed
  qed
  show ?thesis
    using run shape entries unfolding n_def by (intro exI[of _ "map (map g) grid"]) simp
qed

theorem get_matrix_reshape_witness:
  "\<exists>m. get_matrix (const_service (ok_response nine_entries)) (heap0(1 := [''A'', ''B'', ''C''])) 1 ''k''
          ''travelDistance'' ''driving'' dm_init world0 =
         (Inr m,
          \<lparr>response = ok_response nine_entries, last_requested = 1,
           number_of_requests_saved = 0, number_of_requests_made = 1\<rparr>,
          \<lparr>sent = [matrix_request [''A'', ''B'', ''C''] ''k'' ''driving''], stdout = []\<rparr>)
       \<and> length m = 3 \<and> length (m ! 1) = 3 \<and> m ! 1 ! 2 = JNum (Num 5)"
proof -
  let ?g = "[''A'', ''B'', ''C'']"
  let ?h = "heap0(1 := ?g)"
  have hg: "?h 1 = ?g" by simp
  have key: "''travelDistance'' \<in> {''travelDistance'', ''travelDuration''}" by simp
  have rq: "request_matrix (const_service (ok_response nine_entries)) ?h 1 ''k'' ''driving''
      dm_init world0 =
     (Inr (ok_response nine_entries),
      \<lparr>response = ok_response nine_entries, last_requested = 1,
       number_of_requests_saved = 0, number_of_requests_made = 1\<rparr>,
      \<lparr>sent = [matrix_request ?g ''k'' ''driving''], stdout = []\<rparr>)"
    by (simp add: request_matrix_def condition1_def py_bind_def http_get_json_def
        const_service_def dm_init_def world0_def Let_def heap0_def class_list_def
        identical_list_def matrix_request_def)
  have st: "getitem (ok_response nine_entries) ''statusCode'' = Inr (JNum (Num 200))"
    by (simp add: ok_response_def)
  have rs: "results_of (ok_response nine_entries) = Inr (JArr nine_entries)"
    by (simp add: ok_response_def results_of_def py_bind_def)
  have len: "length nine_entries = length (?h 1) * length (?h 1)"
    by (simp add: nine_entries_def)
  have fields: "\<forall>item \<in> set nine_entries.
      \<exists>d t. getitem item ''travelDistance'' = Inr d \<and> getitem item ''travelDuration'' = Inr t"
    by (simp add: nine_entries_def entry_def)
  have at: "getitem (nine_entries ! (1 * length ?g + 2)) ''travelDistance''
              = Inr (JNum (Num 5))"
    by (simp add: nine_entries_def entry_def)
  from get_matrix_reshape[OF key rq st rs len fields, unfolded hg] obtain m
    where run: "get_matrix (const_service (ok_response nine_entries)) ?h 1 ''k''
                  ''travelDistance'' ''driving'' dm_init world0 =
         (Inr m,
          \<lparr>response = ok_response nine_entries, last_requested = 1,
           number_of_requests_saved = 0, number_of_requests_made = 1\<rparr>,
          \<lparr>sent = [matrix_request ?g ''k'' ''driving''], stdout = []\<rparr>)"
      and rows: "length m = length ?g"
      and cells: "\<And>i j. i < length ?g \<Longrightarrow> j < length ?g \<Longrightarrow> length (m ! i) = length ?g
             \<and> getitem (nine_entries ! (i * length ?g + j)) ''travelDistance'' = Inr (m ! i ! j)"
    by blast
  from cells[of 1 2] at have "length (m ! 1) = 3 \<and> m ! 1 ! 2 = JNum (Num 5)" by simp
  with run rows show ?thesis by (intro exI[of _ m]) simp
qed

section \<open>Properties of the address record\<close>

lemma getitem_error: "getitem v k = Inl e \<Longrightarrow> e = KeyError \<or> e = TypeError"
  by (cases v) (auto split: option.splits)

lemma getitem0_error:
  "getitem0 v = Inl e \<Longrightarrow> e = KeyError \<or> e = TypeError \<or> e = IndexError"
  by (cases v) (auto split: list.splits)

lemma py_iter_error: "py_iter v = Inl e \<Longrightarrow> e = TypeError"
  by (cases v) auto

lemma extract_coordinates_error: "extract_coordinates r \<noteq> Inl (PyException m)"
proof
  assume "extract_coordinates r = Inl (PyException m)"
  then show False
    unfolding extract_coordinates_def py_bind_def
    by (auto split: sum.splits list.splits
        dest: getitem_error getitem0_error py_iter_error)
qed

lemma extract_coordinates_truthy: "extract_coordinates r = Inr p \<Longrightarrow> truthy r"
  by (cases r) (auto simp: extract_coordinates_def py_bind_def split: option.splits)

lemma out_of_range_iff:
  "out_of_range v lo hi = Inr b \<longleftrightarrow>
     (\<exists>n. num_of v = Some n \<and> b = (num_lt n lo \<or> num_gt n hi))"
  by (auto simp: out_of_range_def split: option.splits)

text \<open>The three ways lines 149 to 158 end.\<close>

lemma validate_and_store_cases:
  assumes "validate_and_store r b = (res, b')"
  shows "(b' = b \<and> (\<exists>e. res = Inl e \<and> (\<forall>m. e = PyException m \<longrightarrow> truthy r)))
       \<or> (res = Inr () \<and> truthy r \<and>
            (\<exists>lon lat. extract_coordinates r = Inr (lon, lat)
               \<and> b' = b(''_Address__latitude'' \<mapsto> lat, ''_Address__longitude'' \<mapsto> lon)))"
proof (cases "extract_coordinates r")
  case (Inl e)
  with assms extract_coordinates_error[of r] show ?thesis
    by (auto simp: validate_and_store_def)
next
  case (Inr p)
  then have t: "truthy r" by (rule extract_coordinates_truthy)
  obtain lon lat where p: "p = (lon, lat)" by (cases p)
  show ?thesis
    using assms Inr p t
    by (auto simp: validate_and_store_def split: sum.splits bool.splits)
qed

lemma validate_and_store_raises:
  assumes "extract_coordinates r = Inr (lon, lat)"
      and "num_of lat = Some y" and "num_of lon = Some x"
      and "num_lt y (- 90) \<or> num_gt y 90 \<or> num_lt x (- 180) \<or> num_gt x 180"
  shows "\<exists>m. validate_and_store r b = (Inl (PyException m), b)"
  using assms by (auto simp: validate_and_store_def out_of_range_def split: bool.splits)

lemma geocode_resolved:
  "a ''_Address__info'' = Some i \<Longrightarrow> truthy i \<Longrightarrow> geocode svc a w = (Inr (), a, w)"
  by (simp add: geocode_def getattr_def)

lemma get_geocode_error: "get_geocode a = Inl e \<Longrightarrow> e = AttributeError"
  by (auto simp: get_geocode_def py_bind_def street_def city_def state_def country_def
      zipcode_def getattr_def split: sum.splits option.splits)

text \<open>The ways a call of geocode ends.\<close>

lemma geocode_cases:
  assumes "geocode svc a w = (res, a', w')"
  shows "(a' = a \<and> w' = w \<and> (\<exists>e. res = Inl e \<and> (\<forall>m. e \<noteq> PyException m)))
       \<or> (a' = a \<and> w' = w \<and> res = Inr () \<and> (\<exists>i. a ''_Address__info'' = Some i \<and> truthy i))
       \<or> ((\<exists>i. a ''_Address__info'' = Some i \<and> \<not> truthy i) \<and>
           (\<exists>req. get_geocode a = Inr req \<and> w' = w\<lparr>sent := sent w @ [req]\<rparr> \<and>
              (case svc (length (sent w)) req of
                 None \<Rightarrow> a' = a \<and> res = Inl RequestException
               | Some r \<Rightarrow> validate_and_store r (a(''_Address__info'' \<mapsto> r)) = (res, a'))))"
  using assms
  by (auto simp: geocode_def getattr_def http_get_json_def py_bind_def
      split: option.splits sum.splits if_splits prod.splits dest: get_geocode_error)

lemma inv_init: "address_inv st ci sa co z (init st ci sa co z)"
  by (simp add: address_inv_def init_def unset_def)

lemma inv_geocode:
  assumes "address_inv st ci sa co z a" and "geocode svc a w = (res, a', w')"
  shows "address_inv st ci sa co z a'"
proof -
  from geocode_cases[OF assms(2)]
  consider "a' = a"
    | i r where "a ''_Address__info'' = Some i" "\<not> truthy i"
        "validate_and_store r (a(''_Address__info'' \<mapsto> r)) = (res, a')"
    by (auto split: option.splits)
  then show ?thesis
  proof cases
    case 1
    with assms(1) show ?thesis by simp
  next
    case 2
    with assms(1) have un: "unset a" by (auto simp: address_inv_def)
    from validate_and_store_cases[OF 2(3)] show ?thesis
    proof (elim disjE conjE exE)
      fix e assume "a' = a(''_Address__info'' \<mapsto> r)"
      with assms(1) un show ?thesis by (simp add: address_inv_def unset_def)
    next
      fix lon lat
      assume "truthy r"
        "a' = a(''_Address__info'' \<mapsto> r, ''_Address__latitude'' \<mapsto> lat,
                ''_Address__longitude'' \<mapsto> lon)"
      with assms(1) show ?thesis by (simp add: address_inv_def)
    qed
  qed
qed

lemma reaches_inv:
  "reaches a0 a \<Longrightarrow> address_inv st ci sa co z a0 \<Longrightarrow> address_inv st ci sa co z a"
  by (induction rule: reaches.induct) (auto intro: inv_geocode)

lemma reachable_inv: "reaches (init st ci sa co z) a \<Longrightarrow> address_inv st ci sa co z a"
  by (rule reaches_inv[OF _ inv_init])

lemmas geo_eval = geocode_def getattr_def init_def get_geocode_def street_def city_def
  state_def country_def zipcode_def http_get_json_def const_service_def
  validate_and_store_def extract_coordinates_def out_of_range_def geo_response_def
  py_bind_def world0_def address0_def flaky_service_def



lemma reaches_resolved:
  "reaches a b \<Longrightarrow> a ''_Address__info'' = Some i \<Longrightarrow> truthy i \<Longrightarrow> b = a"
  by (induction rule: reaches.induct) (auto simp: geocode_resolved)

text \<open>
  C4. The accessor \<^verbatim>\<open>info\<close> reads the attribute \<^verbatim>\<open>_info\<close>, which neither the
  constructor nor \<^verbatim>\<open>geocode\<close> ever sets (they write \<^verbatim>\<open>_Address__info\<close>): on every
  record, resolved or not, it raises AttributeError instead of returning the stored
  metadata.
\<close>

theorem info_raises: "reaches (init st ci sa co z) a \<Longrightarrow> info a = Inl AttributeError"
  by (drule reachable_inv) (simp add: address_inv_def info_def getattr_def)

theorem info_raises_witness: "info address0 = Inl AttributeError"
  unfolding address0_def by (rule info_raises) (rule reaches_refl)

text \<open>The other accessors return the fields the constructor was given.\<close>

lemma accessors_return_fields:
  assumes "reaches (init st ci sa co z) a"
  shows "street a = Inr st" "city a = Inr ci" "state a = Inr sa" "country a = Inr co"
    "zipcode a = Inr z"
  using reachable_inv[OF assms]
  by (simp_all add: address_inv_def street_def city_def state_def country_def zipcode_def getattr_def)


lemma first_geocode_bad:
  "fst (geocode (const_service (geo_response (Num 10) (Num 91))) address0 world0) =
     Inl (PyException ''Illegal argument, latitude must be between -90 and 90'')"
  by (simp add: geo_eval)




text \<open>When the pair taken from the geocoder's answer has a latitude below -90 or above
  90, or a longitude below -180 or above 180 (the infinities included), the call raises
  the validation exception and stores no coordinates.\<close>

lemma geocode_raises_out_of_range:
  assumes "a ''_Address__info'' = Some i" and "\<not> truthy i"
      and "get_geocode a = Inr req" and "svc (length (sent w)) req = Some r"
      and "extract_coordinates r = Inr (lon, lat)"
      and "num_of lat = Some y" and "num_of lon = Some x"
      and "num_lt y (- 90) \<or> num_gt y 90 \<or> num_lt x (- 180) \<or> num_gt x 180"
  shows "\<exists>m. geocode svc a w =
           (Inl (PyException m), a(''_Address__info'' \<mapsto> r), w\<lparr>sent := sent w @ [req]\<rparr>)"
proof -
  from validate_and_store_raises[OF assms(5-8)] obtain m
    where "validate_and_store r (a(''_Address__info'' \<mapsto> r)) =
        (Inl (PyException m), a(''_Address__info'' \<mapsto> r))"
    by blast
  with assms(1-4) show ?thesis
    by (auto simp: geocode_def getattr_def http_get_json_def)
qed

text \<open>
  C6. The claim fails on the code for a NaN: for the answer whose coordinate pair is
  \<^verbatim>\<open>[10, NaN]\<close> both comparisons of line 151 are False, no exception is raised, and the
  call returns with the pair stored: the record is resolved and its latitude does not
  satisfy \<open>-90 \<le> latitude \<le> 90\<close>.
\<close>

theorem geocode_stores_nan:
  "fst nan_call = Inr ()
   \<and> latitude (fst (snd nan_call)) = Inr (JNum NaN)
   \<and> longitude (fst (snd nan_call)) = Inr (JNum (Num 10))
   \<and> getattr (fst (snd nan_call)) ''_Address__info'' = Inr (geo_response (Num 10) NaN)
   \<and> \<not> within_bounds (fst (snd nan_call))"
  by (simp add: nan_call_def geo_eval latitude_def longitude_def within_bounds_def)

text \<open>
  C10. When \<^verbatim>\<open>geocode\<close> raises the bounds exception, the metadata is already stored
  and non-empty while latitude and longitude are still the sentinel pair; every later
  call is a no-op that sends nothing, so no sequence of calls changes the record again.
\<close>

theorem geocode_not_atomic:
  assumes "reaches (init st ci sa co z) a"
      and "geocode svc a w = (Inl (PyException m), a', w')"
  shows "(\<exists>r. a' ''_Address__info'' = Some r \<and> truthy r) \<and> unset a'
       \<and> (\<forall>svc2 w2. geocode svc2 a' w2 = (Inr (), a', w2))
       \<and> (\<forall>b. reaches a' b \<longrightarrow> b = a')"
proof -
  have inv: "address_inv st ci sa co z a" using assms(1) by (rule reachable_inv)
  from geocode_cases[OF assms(2)] obtain i r
    where i: "a ''_Address__info'' = Some i" "\<not> truthy i"
      and v: "validate_and_store r (a(''_Address__info'' \<mapsto> r)) = (Inl (PyException m), a')"
    by (auto split: option.splits)
  from validate_and_store_cases[OF v]
  have a': "a' = a(''_Address__info'' \<mapsto> r)" and t: "truthy r" by auto
  from i inv have "unset a" by (auto simp: address_inv_def)
  with a' have un: "unset a'" by (simp add: unset_def)
  have stored: "a' ''_Address__info'' = Some r" using a' by simp
  have tv: "truthy r" using t by simp
  have noop: "\<forall>svc2 w2. geocode svc2 a' w2 = (Inr (), a', w2)"
    using geocode_resolved[of a' r] stored tv by blast
  have stuck: "\<forall>b. reaches a' b \<longrightarrow> b = a'"
    using reaches_resolved[of a' _ r] stored tv by blast
  from stored t un noop stuck show ?thesis by blast
qed

lemma address0_reachable:
  "reaches (init (JStr ''350 5th Ave'') (JStr ''New York'') (JStr ''NY'')
                (JStr ''USA'') (JStr ''10118'')) address0"
  unfolding address0_def by (rule reaches_refl)

theorem geocode_not_atomic_witness:
  "(let first = geocode (const_service (geo_response (Num 10) (Num 91))) address0 world0;
        a' = fst (snd first)
    in fst first = Inl (PyException ''Illegal argument, latitude must be between -90 and 90'')
     \<and> unset a'
     \<and> geocode (const_service (geo_response (Num (- 74)) (Num 41))) a' (snd (snd first)) =
         (Inr (), a', snd (snd first)))"
proof -
  let ?first = "geocode (const_service (geo_response (Num 10) (Num 91))) address0 world0"
  have run: "?first =
      (Inl (PyException ''Illegal argument, latitude must be between -90 and 90''),
       fst (snd ?first), snd (snd ?first))"
    using first_geocode_bad by (metis prod.collapse)
  from geocode_not_atomic[OF address0_reachable run]
  have "unset (fst (snd ?first))"
    and "geocode (const_service (geo_response (Num (- 74)) (Num 41))) (fst (snd ?first)) (snd (snd ?first)) =
         (Inr (), fst (snd ?first), snd (snd ?first))"
    by blast+
  then show ?thesis using first_geocode_bad by (simp add: Let_def)
qed

end
